theory Spec2Isabelle
  imports Main "HOL-Library.Word" "HOL-Library.Mapping" "HOL-Library.AList_Mapping"
begin

section \<open>Taint ranges and the identity-keyed taint map (TaintRange.cpp)\<close>

subsection \<open>Data model\<close>

text \<open>
  Modelled from the spec: \<open>Source\<close> is declared in a header of the repository that is
  not part of the sources at hand; the spec gives it as \<open>{name, origin_kind, value}\<close>,
  an immutable value compared field by field. The origin enum is kept as its number.
\<close>

record Source =
  src_name :: string
  src_origin :: nat
  src_value :: string

text \<open>
  Modelled from the spec: the struct \<open>TaintRange\<close> is declared in TaintRange.h, which
  is not part of the sources at hand; the spec gives \<open>{start, length, source}\<close>. Its
  integer types \<open>RANGE_START\<close> and \<open>RANGE_LENGTH\<close> are signed machine integers, 64 bits
  wide here: \<open>+\<close> wraps around at \<open>2^63\<close>, and \<open>sint\<close> reads the signed value. The
  field \<open>length\<close> is written \<open>length'\<close>.
\<close>

type_synonym RANGE_START = "64 word"
type_synonym RANGE_LENGTH = "64 word"

record TaintRange =
  start :: RANGE_START
  length' :: RANGE_LENGTH
  source :: Source

type_synonym TaintRangeRefs = "TaintRange list"

text \<open>
  Modelled from the spec: \<open>initializer->allocate_taint_range(start, length, source)\<close>,
  the single allocation entry point for ranges (Initializer.h is not part of the sources
  at hand): it returns a range holding the three values it is given.
\<close>

definition allocate_taint_range :: "RANGE_START \<Rightarrow> RANGE_LENGTH \<Rightarrow> Source \<Rightarrow> TaintRange" where
  "allocate_taint_range s l src = \<lparr>start = s, length' = l, source = src\<rparr>"

subsection \<open>Shifting ranges (lines 47-66)\<close>

definition api_shift_taint_range :: "TaintRange \<Rightarrow> RANGE_START \<Rightarrow> TaintRange" where
  "api_shift_taint_range source_taint_range offset =
     allocate_taint_range (start source_taint_range + offset)
                          (length' source_taint_range)
                          (source source_taint_range)"

text \<open>
  The \<open>for\<close> loop of \<open>api_shift_taint_ranges\<close>: every element is shifted and appended to
  \<open>new_ranges\<close> (\<open>emplace_back\<close>), in the order of the input.
\<close>

fun shift_loop :: "TaintRangeRefs \<Rightarrow> RANGE_START \<Rightarrow> TaintRangeRefs \<Rightarrow> TaintRangeRefs" where
  "shift_loop [] offset new_ranges = new_ranges"
| "shift_loop (trange # rest) offset new_ranges =
     shift_loop rest offset (new_ranges @ [api_shift_taint_range trange offset])"

definition api_shift_taint_ranges :: "TaintRangeRefs \<Rightarrow> RANGE_START \<Rightarrow> TaintRangeRefs" where
  "api_shift_taint_ranges source_taint_ranges offset = shift_loop source_taint_ranges offset []"

subsection \<open>The exported comparison of ranges (lines 295-305)\<close>

text \<open>
  Both lambdas take \<open>TaintRangePtr\<close> arguments; \<open>other\<close> may be the null pointer, which
  is \<open>None\<close> here.
\<close>

definition taintrange_eq :: "TaintRange \<Rightarrow> TaintRange option \<Rightarrow> bool" where
  "taintrange_eq self other =
     (case other of
        None \<Rightarrow> False
      | Some other' \<Rightarrow> start self = start other' \<and> length' self = length' other')"

definition taintrange_ne :: "TaintRange \<Rightarrow> TaintRange option \<Rightarrow> bool" where
  "taintrange_ne self other =
     (case other of
        None \<Rightarrow> True
      | Some other' \<Rightarrow> start self \<noteq> start other' \<or> length' self \<noteq> length' other')"

subsection \<open>Host values\<close>

text \<open>
  A \<open>PyObject*\<close> argument is \<open>None\<close> for the null pointer and otherwise the object
  it points to, seen through the capabilities the functions use:
  \<^item> \<open>unique_id\<close>: \<open>get_unique_id(obj)\<close>, the identity (address) of the object;
  \<^item> \<open>hash\<close>: the field read by \<open>((PyASCIIObject*)obj)->hash\<close>, the cached hash,
    \<open>-1\<close> while the host has not computed it;
  \<^item> \<open>text_like\<close>: the answer of \<open>is_text(obj)\<close>;
  \<^item> \<open>py_hash\<close>: the value \<open>PyObject_Hash(obj)\<close> computes and caches in \<open>hash\<close>.
\<close>

record PyObject =
  unique_id :: nat
  hash :: int
  text_like :: bool
  py_hash :: int

text \<open>
  Modelled from the spec: \<open>is_text\<close> is the host capability "is this value text-like"
  (its definition is not part of the sources at hand); the null pointer is not text-like.
\<close>

definition is_text :: "PyObject option \<Rightarrow> bool" where
  "is_text pyptr = (case pyptr of None \<Rightarrow> False | Some obj \<Rightarrow> text_like obj)"

subsection \<open>Tainted objects, the taint maps and the memory they live in\<close>

text \<open>
  Modelled from the spec: \<open>TaintedObject\<close> (declared outside the sources at hand) is an
  ordered sequence of ranges with an explicit reference counter.
\<close>

record TaintedObject =
  ranges :: TaintRangeRefs
  rc :: nat

text \<open>
  \<open>TaintRangeMapType\<close> maps an identity (\<open>uintptr_t\<close>) to the pair of the cached hash
  (\<open>Py_hash_t\<close>) and a \<open>TaintedObjectPtr\<close>, an address in the memory of tainted objects.
\<close>

type_synonym TaintRangeMapType = "(nat, int \<times> nat) mapping"

text \<open>
  The state the functions of TaintRange.cpp read and write:
  \<^item> \<open>tainting_map\<close>: what \<open>initializer->get_tainting_map()\<close> returns, the address of
    the context's map or the null pointer (\<open>None\<close>);
  \<^item> \<open>context_id\<close>: what \<open>initializer->context_id()\<close> returns;
  \<^item> \<open>maps\<close>: the taint maps in memory, by address (a \<open>TaintRangeMapType*\<close> is an
    address; the same map may be reached through the argument and through the context);
  \<^item> \<open>objects\<close>: the memory of tainted objects; a \<open>TaintedObjectPtr\<close> is an index,
    a destroyed object leaves \<open>None\<close> at its index.
\<close>

record world =
  tainting_map :: "nat option"
  context_id :: nat
  maps :: "(nat, TaintRangeMapType) mapping"
  objects :: "TaintedObject option list"

text \<open>
  The two ways a call ends without a result: the \<open>py::value_error\<close> thrown when no map
  is initialized, and an access C++ gives no meaning to (an end iterator, a pointer to
  no live object or a number taken for a pointer is dereferenced).
\<close>

datatype error = value_error | undefined_behaviour

definition obj_at :: "world \<Rightarrow> nat \<Rightarrow> TaintedObject option" where
  "obj_at w a = (if a < length (objects w) then objects w ! a else None)"

text \<open>
  Modelled from the spec: \<open>incref()\<close> and \<open>decref()\<close> of \<open>TaintedObject\<close> (defined
  outside the sources at hand) are the counter operations; \<open>decref()\<close> destroys the
  object and releases its ranges when the count reaches zero (the counter is a natural
  number: lowering it from \<open>1\<close>, or from \<open>0\<close>, gives zero). Called through a pointer
  to no live object they have no defined behaviour.
\<close>

definition incref :: "world \<Rightarrow> nat \<Rightarrow> error + world" where
  "incref w a =
     (case obj_at w a of
        None \<Rightarrow> Inl undefined_behaviour
      | Some t \<Rightarrow> Inr (w\<lparr>objects := (objects w)[a := Some (t\<lparr>rc := rc t + 1\<rparr>)]\<rparr>))"

definition decref :: "world \<Rightarrow> nat \<Rightarrow> error + world" where
  "decref w a =
     (case obj_at w a of
        None \<Rightarrow> Inl undefined_behaviour
      | Some t \<Rightarrow>
          if rc t - 1 = 0 then Inr (w\<lparr>objects := (objects w)[a := None]\<rparr>)
          else Inr (w\<lparr>objects := (objects w)[a := Some (t\<lparr>rc := rc t - 1\<rparr>)]\<rparr>))"

text \<open>
  Modelled from the spec: \<open>initializer->allocate_ranges_into_taint_object(ranges)\<close>, the
  single allocation entry point for taint containers (Initializer.h is not part of the
  sources at hand): a new object holding the given ranges, not yet counted by anyone.
  The new object takes the next address of the memory.
\<close>

definition allocate_ranges_into_taint_object :: "world \<Rightarrow> TaintRangeRefs \<Rightarrow> nat \<times> world" where
  "allocate_ranges_into_taint_object w rs =
     (length (objects w), w\<lparr>objects := objects w @ [Some \<lparr>ranges = rs, rc = 0\<rparr>]\<rparr>)"

text \<open>
  The first step of every function that takes a map: \<open>if (not tx_map) tx_map =
  initializer->get_tainting_map();\<close>. The result is still null when the context has no
  map; each function then does what its own next line says.
\<close>

definition resolve_map :: "world \<Rightarrow> nat option \<Rightarrow> nat option" where
  "resolve_map w tx_map = (case tx_map of None \<Rightarrow> tainting_map w | Some p \<Rightarrow> Some p)"

subsection \<open>get_ranges (lines 68-92)\<close>

text \<open>
  \<open>is_text\<close> of the null pointer is false, so the first line returns for it; below that
  line the argument is an object.
\<close>

definition get_ranges :: "world \<Rightarrow> PyObject option \<Rightarrow> nat option \<Rightarrow> error + TaintRangeRefs" where
  "get_ranges w string_input tx_map =
     (case string_input of
        None \<Rightarrow> Inr []
      | Some s \<Rightarrow>
          if \<not> text_like s then Inr []
          else
            (case resolve_map w tx_map of
               None \<Rightarrow> Inr []
             | Some p \<Rightarrow>
                 (case Mapping.lookup (maps w) p of
                    None \<Rightarrow> Inl undefined_behaviour
                  | Some m \<Rightarrow>
                      if Mapping.is_empty m then Inr []
                      else
                        (case Mapping.lookup m (unique_id s) of
                           None \<Rightarrow> Inr []
                         | Some (cached, obj) \<Rightarrow>
                             if hash s \<noteq> cached then Inr []
                             else
                               (case obj_at w obj of
                                  None \<Rightarrow> Inl undefined_behaviour
                                | Some t \<Rightarrow> Inr (ranges t))))))"

subsection \<open>set_ranges (lines 94-125)\<close>

text \<open>
  \<open>store_map w p m\<close> writes the map \<open>m\<close> back at the address \<open>p\<close>: the source updates
  the map in place through the pointer.
\<close>

definition store_map :: "world \<Rightarrow> nat \<Rightarrow> TaintRangeMapType \<Rightarrow> world" where
  "store_map w p m = w\<lparr>maps := Mapping.update p m (maps w)\<rparr>"

definition set_ranges ::
  "world \<Rightarrow> PyObject option \<Rightarrow> TaintRangeRefs \<Rightarrow> nat option \<Rightarrow> error + world" where
  "set_ranges w str rs tx_map =
     (case str of
        None \<Rightarrow> Inr w
      | Some s \<Rightarrow>
          if \<not> text_like s \<or> rs = [] then Inr w
          else
            (case resolve_map w tx_map of
               None \<Rightarrow> Inl value_error
             | Some p \<Rightarrow>
                 if context_id w = 0 then Inr w
                 else
                   (case Mapping.lookup (maps w) p of
                      None \<Rightarrow> Inl undefined_behaviour
                    | Some m \<Rightarrow>
                        let obj_id = unique_id s;
                            it = Mapping.lookup m obj_id;
                            (new_tainted_object, w1) = allocate_ranges_into_taint_object w rs;
                            h = hash s
                        in (case incref w1 new_tainted_object of
                              Inl e \<Rightarrow> Inl e
                            | Inr w2 \<Rightarrow>
                                (case it of
                                   Some (old_hash, old_object) \<Rightarrow>
                                     (case decref w2 old_object of
                                        Inl e \<Rightarrow> Inl e
                                      | Inr w3 \<Rightarrow>
                                          Inr (store_map w3 p
                                                (Mapping.update obj_id (h, new_tainted_object) m)))
                                 | None \<Rightarrow>
                                     Inr (store_map w2 p
                                           (Mapping.update obj_id (h, new_tainted_object) m)))))))"

subsection \<open>are_all_text_all_ranges (lines 131-153)\<close>

text \<open>
  The loop over \<open>parameter_list\<close>; its elements are objects (never the null pointer).
\<close>

fun all_ranges_loop ::
  "world \<Rightarrow> nat option \<Rightarrow> PyObject list \<Rightarrow> TaintRangeRefs \<Rightarrow> error + TaintRangeRefs" where
  "all_ranges_loop w tx_map [] all_ranges = Inr all_ranges"
| "all_ranges_loop w tx_map (param # rest) all_ranges =
     (if is_text (Some param) then
        (case get_ranges w (Some param) tx_map of
           Inl e \<Rightarrow> Inl e
         | Inr rs \<Rightarrow> all_ranges_loop w tx_map rest (all_ranges @ rs))
      else all_ranges_loop w tx_map rest all_ranges)"

definition are_all_text_all_ranges ::
  "world \<Rightarrow> PyObject option \<Rightarrow> PyObject list \<Rightarrow> error + (TaintRangeRefs \<times> TaintRangeRefs)" where
  "are_all_text_all_ranges w candidate_text parameter_list =
     (if \<not> is_text candidate_text then Inr ([], [])
      else
        let tx_map = tainting_map w in
        (case get_ranges w candidate_text tx_map of
           Inl e \<Rightarrow> Inl e
         | Inr candidate_text_ranges \<Rightarrow>
             (case all_ranges_loop w tx_map parameter_list [] of
                Inl e \<Rightarrow> Inl e
              | Inr all_ranges \<Rightarrow>
                  Inr (all_ranges @ candidate_text_ranges, candidate_text_ranges))))"

subsection \<open>get_tainted_object (lines 172-196)\<close>

text \<open>
  The result is the returned \<open>TaintedObjectPtr\<close> (\<open>None\<close> for \<open>nullptr\<close>) and the state
  after the call. Line 191 reads \<open>it->second.first\<close> before line 195 compares \<open>it\<close>
  with \<open>tx_map->end()\<close>: when the identity is not in the map, the end iterator is
  dereferenced.
\<close>

definition get_tainted_object ::
  "world \<Rightarrow> PyObject option \<Rightarrow> nat option \<Rightarrow> error + (nat option \<times> world)" where
  "get_tainted_object w str tx_map =
     (case str of
        None \<Rightarrow> Inr (None, w)
      | Some s \<Rightarrow>
          (case resolve_map w tx_map of
             None \<Rightarrow> Inl value_error
           | Some p \<Rightarrow>
               (case Mapping.lookup (maps w) p of
                  None \<Rightarrow> Inl undefined_behaviour
                | Some m \<Rightarrow>
                    if Mapping.is_empty m then Inr (None, w)
                    else
                      (case Mapping.lookup m (unique_id s) of
                         None \<Rightarrow> Inl undefined_behaviour
                       | Some (cached, obj) \<Rightarrow>
                           if hash s \<noteq> cached then
                             (case decref w obj of
                                Inl e \<Rightarrow> Inl e
                              | Inr w' \<Rightarrow> Inr (None, w'))
                           else Inr (Some obj, w)))))"

subsection \<open>set_tainted_object (lines 198-237)\<close>

text \<open>
  The key of the map is a \<open>uintptr_t\<close>; line 236 passes the \<open>Py_hash_t\<close> value
  \<open>hash\<close> as the key, which converts it modulo \<open>2^64\<close> (a 64-bit platform).
\<close>

definition to_uintptr :: "int \<Rightarrow> nat" where
  "to_uintptr h = nat (h mod 2 ^ 64)"

text \<open>
  Lines 213-221. When the cached hash is \<open>-1\<close>, \<open>PyObject_Hash(str)\<close> computes the hash
  and caches it in the value; \<open>result\<close> is that number, a \<open>Py_hash_t\<close>. When it is not
  \<open>0\<close> (\<open>result != NULL\<close>), line 218 applies \<open>Py_DECREF\<close> to it: the number is taken
  for a pointer to an object and the count of that object is lowered, which C++ gives no
  meaning to. Otherwise line 220 reads the hash again, now the computed one.
\<close>

definition force_hash :: "PyObject \<Rightarrow> error + int" where
  "force_hash s =
     (if hash s = - 1 then
        (let result = py_hash s
         in if result \<noteq> 0 then Inl undefined_behaviour else Inr result)
      else Inr (hash s))"

text \<open>
  \<open>insert\<close> of the map leaves an existing key as it is.
\<close>

definition map_insert :: "nat \<Rightarrow> int \<times> nat \<Rightarrow> TaintRangeMapType \<Rightarrow> TaintRangeMapType" where
  "map_insert k v m = (case Mapping.lookup m k of None \<Rightarrow> Mapping.update k v m | Some _ \<Rightarrow> m)"

text \<open>
  The \<open>TaintedObjectPtr\<close> argument is \<open>None\<close> for the null pointer, as the result of
  \<open>get_tainted_object\<close> is; \<open>tainted_object->incref()\<close> through the null pointer has
  no defined behaviour.
\<close>

definition set_tainted_object ::
  "world \<Rightarrow> PyObject option \<Rightarrow> nat option \<Rightarrow> nat option \<Rightarrow> error + world" where
  "set_tainted_object w str tainted_object tx_taint_map =
     (case str of
        None \<Rightarrow> Inr w
      | Some s \<Rightarrow>
          if \<not> text_like s then Inr w
          else
            (case resolve_map w tx_taint_map of
               None \<Rightarrow> Inl value_error
             | Some p \<Rightarrow>
                 (case Mapping.lookup (maps w) p of
                    None \<Rightarrow> Inl undefined_behaviour
                  | Some m \<Rightarrow>
                      let obj_id = unique_id s;
                          it = Mapping.lookup m obj_id
                      in (case force_hash s of
                            Inl e \<Rightarrow> Inl e
                          | Inr h \<Rightarrow>
                              (case it of
                                 Some (cached, old_object) \<Rightarrow>
                                   if Some old_object \<noteq> tainted_object then
                                     (case decref w old_object of
                                        Inl e \<Rightarrow> Inl e
                                      | Inr w1 \<Rightarrow>
                                          (case tainted_object of
                                             None \<Rightarrow> Inl undefined_behaviour
                                           | Some new_object \<Rightarrow>
                                               (case incref w1 new_object of
                                                  Inl e \<Rightarrow> Inl e
                                                | Inr w2 \<Rightarrow>
                                                    Inr (store_map w2 p
                                                          (Mapping.update obj_id
                                                             (cached, new_object) m)))))
                                   else Inr w
                               | None \<Rightarrow>
                                   (case tainted_object of
                                      None \<Rightarrow> Inl undefined_behaviour
                                    | Some new_object \<Rightarrow>
                                        (case incref w new_object of
                                           Inl e \<Rightarrow> Inl e
                                         | Inr w1 \<Rightarrow>
                                             Inr (store_map w1 p
                                                   (map_insert (to_uintptr h)
                                                      (h, new_object) m)))))))))"

subsection \<open>Specification-side notions\<close>

text \<open>
  What \<open>decref\<close> leaves at the address of a live object \<open>t\<close>: nothing when the count
  reaches zero, the object with its count lowered otherwise.
\<close>

definition released :: "TaintedObject \<Rightarrow> TaintedObject option" where
  "released t = (if rc t - 1 = 0 then None else Some (t\<lparr>rc := rc t - 1\<rparr>))"

text \<open>
  The ranges of a value in the context's map: what \<open>get_ranges\<close> returns for it when no
  map is passed.
\<close>

definition ranges_of :: "world \<Rightarrow> PyObject option \<Rightarrow> TaintRangeRefs" where
  "ranges_of w x = (case get_ranges w x None of Inl e \<Rightarrow> [] | Inr rs \<Rightarrow> rs)"

subsection \<open>Concrete inputs\<close>

text \<open>
  Two ranges, a range that starts at the largest \<open>RANGE_START\<close> (\<open>2^63 - 1\<close>), a text
  value with identity \<open>1\<close> and hash \<open>7\<close>, a context whose map (at address \<open>0\<close>) is
  empty, and the same context after the value has been tainted once.
\<close>

definition ex_source :: Source where
  "ex_source = \<lparr>src_name = ''param'', src_origin = 0, src_value = ''abc''\<rparr>"

definition ex_range :: TaintRange where
  "ex_range = \<lparr>start = 0, length' = 3, source = ex_source\<rparr>"

definition ex_range2 :: TaintRange where
  "ex_range2 = \<lparr>start = 5, length' = 2, source = ex_source\<rparr>"

definition ex_range_max :: TaintRange where
  "ex_range_max = \<lparr>start = 9223372036854775807, length' = 1, source = ex_source\<rparr>"

definition ex_value :: PyObject where
  "ex_value = \<lparr>unique_id = 1, hash = 7, text_like = True, py_hash = 7\<rparr>"

definition ex_world :: world where
  "ex_world = \<lparr>tainting_map = Some 0, context_id = 1,
                maps = Mapping.update 0 Mapping.empty Mapping.empty, objects = []\<rparr>"

definition ex_world_tainted :: world where
  "ex_world_tainted =
     \<lparr>tainting_map = Some 0, context_id = 1,
      maps = Mapping.update 0 (Mapping.update 1 (7, 0) Mapping.empty) Mapping.empty,
      objects = [Some \<lparr>ranges = [ex_range], rc = 1\<rparr>]\<rparr>"

text \<open>
  A text value whose hash the host has not computed yet, with the context after
  \<open>set_ranges\<close> has tainted it (the entry caches \<open>-1\<close>); the empty context with one
  object allocated and not yet counted; and a context whose
  map holds three tainted values, with a list of operands: two of those values around an
  object that is not text-like.
\<close>

definition ex_value_unhashed :: PyObject where
  "ex_value_unhashed = \<lparr>unique_id = 1, hash = - 1, text_like = True, py_hash = 7\<rparr>"

definition ex_world_unhashed :: world where
  "ex_world_unhashed =
     \<lparr>tainting_map = Some 0, context_id = 1,
      maps = Mapping.update 0 (Mapping.update 1 (- 1, 0) Mapping.empty) Mapping.empty,
      objects = [Some \<lparr>ranges = [ex_range], rc = 1\<rparr>]\<rparr>"

definition ex_world_alloc :: world where
  "ex_world_alloc = ex_world\<lparr>objects := [Some \<lparr>ranges = [ex_range], rc = 0\<rparr>]\<rparr>"

definition ex_world_three :: world where
  "ex_world_three =
     \<lparr>tainting_map = Some 0, context_id = 1,
      maps = Mapping.update 0
               (Mapping.update 1 (7, 0)
                 (Mapping.update 2 (8, 1) (Mapping.update 3 (9, 2) Mapping.empty)))
               Mapping.empty,
      objects = [Some \<lparr>ranges = [ex_range], rc = 1\<rparr>,
                 Some \<lparr>ranges = [ex_range2], rc = 1\<rparr>,
                 Some \<lparr>ranges = [ex_range, ex_range2], rc = 1\<rparr>]\<rparr>"

definition ex_operands :: "PyObject list" where
  "ex_operands =
     [\<lparr>unique_id = 2, hash = 8, text_like = True, py_hash = 8\<rparr>,
      \<lparr>unique_id = 4, hash = 5, text_like = False, py_hash = 5\<rparr>,
      \<lparr>unique_id = 3, hash = 9, text_like = True, py_hash = 9\<rparr>]"

section \<open>Properties\<close>

subsection \<open>Shifting\<close>

lemma shift_loop_map:
  "shift_loop rs offset acc = acc @ map (\<lambda>r. api_shift_taint_range r offset) rs"
  by (induction rs arbitrary: acc) simp_all

lemma sint_add_in_range:
  fixes a b :: "64 word"
  assumes "- (2 ^ 63) \<le> sint a + sint b" "sint a + sint b < 2 ^ 63"
  shows "sint (a + b) = sint a + sint b"
  using assms by (simp add: sint_word_ariths signed_take_bit_int_eq_self)

text \<open>
  C7, as the code has it. \<open>api_shift_taint_range r o\<close> is a range whose start is
  \<open>start r + o\<close> in the arithmetic of \<open>RANGE_START\<close>, which wraps around; its signed
  value is the sum of the signed values of \<open>start r\<close> and \<open>o\<close> whenever that sum lies
  in the range of the type, from \<open>-2^63\<close> up to \<open>2^63 - 1\<close>. Its length is that of \<open>r\<close>
  and its source is that of \<open>r\<close> (the argument is a value and is not changed).
  \<open>api_shift_taint_ranges rs o\<close> has the size of \<open>rs\<close> and is, element by element and in
  the same order, the shift of \<open>rs\<close>.
\<close>

theorem shift_correct:
  "start (api_shift_taint_range r offset) = start r + offset
   \<and> (- (2 ^ 63) \<le> sint (start r) + sint offset \<and> sint (start r) + sint offset < 2 ^ 63
        \<longrightarrow> sint (start (api_shift_taint_range r offset)) = sint (start r) + sint offset)
   \<and> length' (api_shift_taint_range r offset) = length' r
   \<and> source (api_shift_taint_range r offset) = source r
   \<and> length (api_shift_taint_ranges rs offset) = length rs
   \<and> api_shift_taint_ranges rs offset = map (\<lambda>r. api_shift_taint_range r offset) rs"
  by (simp add: api_shift_taint_range_def allocate_taint_range_def
      api_shift_taint_ranges_def shift_loop_map sint_add_in_range)

theorem shift_correct_witness:
  "sint (start ex_range2) + sint (3 :: RANGE_START) = 8
   \<and> sint (start (api_shift_taint_range ex_range2 3)) = 8
   \<and> length' (api_shift_taint_range ex_range2 3) = 2
   \<and> source (api_shift_taint_range ex_range2 3) = ex_source
   \<and> api_shift_taint_ranges [ex_range, ex_range2] 3
       = [ex_range\<lparr>start := 3\<rparr>, ex_range2\<lparr>start := 8\<rparr>]"
proof -
  have a: "sint (start ex_range2) + sint (3 :: RANGE_START) = 8"
    by (simp add: ex_range2_def)
  have b: "api_shift_taint_range ex_range 3 = ex_range\<lparr>start := 3\<rparr>"
    "api_shift_taint_range ex_range2 3 = ex_range2\<lparr>start := 8\<rparr>"
    by (simp_all add: api_shift_taint_range_def allocate_taint_range_def ex_range_def
        ex_range2_def)
  show ?thesis
    using shift_correct[of ex_range2 3 "[ex_range, ex_range2]"] a b
    by (simp add: ex_range2_def)
qed

text \<open>
  The range starts at \<open>2^63 - 1\<close> and is shifted by \<open>1\<close>: the sum is \<open>2^63\<close>, the
  start of the result is \<open>-2^63\<close>.
\<close>

theorem shift_overflow_counterexample:
  "sint (start ex_range_max) + sint (1 :: RANGE_START) = 2 ^ 63
   \<and> sint (start (api_shift_taint_range ex_range_max 1)) = - (2 ^ 63)
   \<and> sint (start (api_shift_taint_range ex_range_max 1))
       \<noteq> sint (start ex_range_max) + sint (1 :: RANGE_START)"
  by (simp add: api_shift_taint_range_def allocate_taint_range_def ex_range_max_def)

subsection \<open>Comparison\<close>

text \<open>
  C9. The exported comparison is total and consistent: against the null pointer
  \<open>__eq__\<close> is false and \<open>__ne__\<close> is true; against a range \<open>s\<close>, \<open>__ne__\<close> is the
  negation of \<open>__eq__\<close>, and \<open>__eq__\<close> is exactly the equality of the pairs
  \<open>(start, length)\<close>, so both depend on nothing else.
\<close>

theorem taintrange_eq_ne_consistent:
  "taintrange_eq r None = False
   \<and> taintrange_ne r None = True
   \<and> taintrange_ne r (Some s) = (\<not> taintrange_eq r (Some s))
   \<and> taintrange_eq r (Some s) = ((start r, length' r) = (start s, length' s))"
  by (simp add: taintrange_eq_def taintrange_ne_def)

theorem taintrange_eq_ne_consistent_witness:
  "taintrange_eq ex_range None = False
   \<and> taintrange_ne ex_range None = True
   \<and> taintrange_ne ex_range (Some ex_range2) = True
   \<and> taintrange_eq ex_range (Some ex_range2) = False
   \<and> taintrange_eq ex_range (Some (ex_range\<lparr>source := ex_source\<lparr>src_name := ''other''\<rparr>\<rparr>)) = True"
  using taintrange_eq_ne_consistent[of ex_range ex_range2]
    taintrange_eq_ne_consistent[of ex_range "ex_range\<lparr>source := ex_source\<lparr>src_name := ''other''\<rparr>\<rparr>"]
  by (simp add: ex_range_def ex_range2_def)

subsection \<open>Memory of tainted objects\<close>

lemma incref_not_value_error: "incref w a \<noteq> Inl value_error"
  by (simp add: incref_def split: option.split)

lemma decref_not_value_error: "decref w a \<noteq> Inl value_error"
  by (simp add: decref_def split: option.split)

lemma resolve_map_frame [simp]:
  "resolve_map (w\<lparr>objects := os\<rparr>) tx = resolve_map w tx"
  "resolve_map (w\<lparr>maps := ms\<rparr>) tx = resolve_map w tx"
  by (simp_all add: resolve_map_def split: option.split)

lemma obj_at_frame [simp]: "obj_at (w\<lparr>maps := ms\<rparr>) a = obj_at w a"
  by (simp add: obj_at_def)

lemma obj_at_live_less: "obj_at w a = Some t \<Longrightarrow> a < length (objects w)"
  by (simp add: obj_at_def split: if_splits)

text \<open>Allocation followed by \<open>incref\<close> leaves a new object counted once.\<close>

lemma incref_fresh:
  "incref (snd (allocate_ranges_into_taint_object w rs)) (length (objects w)) =
     Inr (w\<lparr>objects := objects w @ [Some \<lparr>ranges = rs, rc = 1\<rparr>]\<rparr>)"
  by (simp add: allocate_ranges_into_taint_object_def incref_def obj_at_def)

lemma decref_live:
  "obj_at w a = Some t \<Longrightarrow> decref w a = Inr (w\<lparr>objects := (objects w)[a := released t]\<rparr>)"
  by (simp add: decref_def released_def)

lemma lookup_Some_not_empty: "Mapping.lookup m k = Some e \<Longrightarrow> \<not> Mapping.is_empty m"
  by (auto simp: Mapping.is_empty_def keys_dom_lookup)

subsection \<open>set_ranges and get_ranges\<close>

lemma set_ranges_value_error_iff:
  "set_ranges w str rs tx_map = Inl value_error \<longleftrightarrow>
     is_text str \<and> rs \<noteq> [] \<and> tx_map = None \<and> tainting_map w = None"
  using incref_not_value_error decref_not_value_error
  by (auto simp: set_ranges_def is_text_def resolve_map_def Let_def
      split: option.splits sum.splits prod.splits)

lemma set_ranges_insert:
  assumes "text_like s" "rs \<noteq> []" "context_id w \<noteq> 0"
    and "resolve_map w tx_map = Some p" "Mapping.lookup (maps w) p = Some m"
    and "Mapping.lookup m (unique_id s) = None"
  shows "set_ranges w (Some s) rs tx_map =
    Inr (w\<lparr>objects := objects w @ [Some \<lparr>ranges = rs, rc = 1\<rparr>],
           maps := Mapping.update p
                     (Mapping.update (unique_id s) (hash s, length (objects w)) m) (maps w)\<rparr>)"
  using assms incref_fresh[of w rs]
  by (simp add: set_ranges_def store_map_def allocate_ranges_into_taint_object_def)

lemma set_ranges_replace:
  assumes "text_like s" "rs \<noteq> []" "context_id w \<noteq> 0"
    and "resolve_map w tx_map = Some p" "Mapping.lookup (maps w) p = Some m"
    and "Mapping.lookup m (unique_id s) = Some (h0, a0)" "obj_at w a0 = Some t0"
  shows "set_ranges w (Some s) rs tx_map =
    Inr (w\<lparr>objects := (objects w @ [Some \<lparr>ranges = rs, rc = 1\<rparr>])[a0 := released t0],
           maps := Mapping.update p
                     (Mapping.update (unique_id s) (hash s, length (objects w)) m) (maps w)\<rparr>)"
proof -
  let ?w2 = "w\<lparr>objects := objects w @ [Some \<lparr>ranges = rs, rc = 1\<rparr>]\<rparr>"
  have lt: "a0 < length (objects w)" using assms(7) by (rule obj_at_live_less)
  have "obj_at ?w2 a0 = Some t0"
    using assms(7) lt by (simp add: obj_at_def nth_append)
  then have "decref ?w2 a0 = Inr (?w2\<lparr>objects := (objects ?w2)[a0 := released t0]\<rparr>)"
    by (rule decref_live)
  then show ?thesis
    using assms incref_fresh[of w rs]
    by (simp add: set_ranges_def store_map_def allocate_ranges_into_taint_object_def)
qed

lemma get_ranges_hit:
  assumes "text_like s" "resolve_map w tx_map = Some p" "Mapping.lookup (maps w) p = Some m"
    and "Mapping.lookup m (unique_id s) = Some (hash s, a)" "obj_at w a = Some t"
  shows "get_ranges w (Some s) tx_map = Inr (ranges t)"
  using assms lookup_Some_not_empty[OF assms(4)] by (simp add: get_ranges_def)

text \<open>
  C6. The error taxonomy of \<open>set_ranges\<close>: the initialization error is raised exactly
  when the value is text-like, the ranges are not empty, no map is passed and the context
  has none; a value that is not text-like or an empty sequence of ranges returns the state
  as it was; so does a call with a map (passed or from the context) while the context id
  is \<open>0\<close>. In the last two cases nothing is raised.
\<close>

theorem set_ranges_error_taxonomy:
  "(set_ranges w str rs tx_map = Inl value_error \<longleftrightarrow>
      is_text str \<and> rs \<noteq> [] \<and> tx_map = None \<and> tainting_map w = None)
   \<and> (\<not> is_text str \<or> rs = [] \<longrightarrow> set_ranges w str rs tx_map = Inr w)
   \<and> (is_text str \<and> rs \<noteq> [] \<and> (tx_map \<noteq> None \<or> tainting_map w \<noteq> None) \<and> context_id w = 0
        \<longrightarrow> set_ranges w str rs tx_map = Inr w)"
proof (intro conjI impI)
  show "set_ranges w str rs tx_map = Inl value_error \<longleftrightarrow>
      is_text str \<and> rs \<noteq> [] \<and> tx_map = None \<and> tainting_map w = None"
    by (rule set_ranges_value_error_iff)
next
  assume "\<not> is_text str \<or> rs = []"
  then show "set_ranges w str rs tx_map = Inr w"
    by (auto simp: set_ranges_def is_text_def split: option.splits)
next
  assume "is_text str \<and> rs \<noteq> [] \<and> (tx_map \<noteq> None \<or> tainting_map w \<noteq> None) \<and> context_id w = 0"
  then show "set_ranges w str rs tx_map = Inr w"
    by (auto simp: set_ranges_def is_text_def resolve_map_def split: option.splits)
qed

theorem set_ranges_error_taxonomy_witness:
  "set_ranges (ex_world\<lparr>tainting_map := None\<rparr>) (Some ex_value) [ex_range] None = Inl value_error
   \<and> set_ranges ex_world (Some (ex_value\<lparr>text_like := False\<rparr>)) [ex_range] None = Inr ex_world
   \<and> set_ranges ex_world (Some ex_value) [] (Some 0) = Inr ex_world
   \<and> set_ranges (ex_world\<lparr>context_id := 0\<rparr>) (Some ex_value) [ex_range] None
       = Inr (ex_world\<lparr>context_id := 0\<rparr>)"
proof -
  have a: "is_text (Some ex_value)" "\<not> is_text (Some (ex_value\<lparr>text_like := False\<rparr>))"
    by (simp_all add: is_text_def ex_value_def)
  have b: "tainting_map (ex_world\<lparr>tainting_map := None\<rparr>) = None"
    "tainting_map (ex_world\<lparr>context_id := 0\<rparr>) \<noteq> None"
    "context_id (ex_world\<lparr>context_id := 0\<rparr>) = 0"
    by (simp_all add: ex_world_def)
  show ?thesis
    using a b
      set_ranges_error_taxonomy[of "ex_world\<lparr>tainting_map := None\<rparr>" "Some ex_value" "[ex_range]" None]
      set_ranges_error_taxonomy[of ex_world "Some (ex_value\<lparr>text_like := False\<rparr>)" "[ex_range]" None]
      set_ranges_error_taxonomy[of ex_world "Some ex_value" "[]" "Some 0"]
      set_ranges_error_taxonomy[of "ex_world\<lparr>context_id := 0\<rparr>" "Some ex_value" "[ex_range]" None]
    by simp
qed

text \<open>
  C1. Round trip through the map: for a text-like value \<open>v\<close> and a non-empty sequence
  \<open>rs\<close>, in an active context (\<open>context_id \<noteq> 0\<close>) whose map exists, \<open>set_ranges\<close>
  returns, and \<open>get_ranges\<close> on the same value (same identity, same hash) and the same map
  then returns exactly \<open>rs\<close>. The entry the map may already hold for the identity of
  \<open>v\<close> must point to a live object, as every pointer a C++ function follows must.
\<close>

theorem set_ranges_get_ranges_roundtrip:
  assumes "is_text (Some v)" "rs \<noteq> []" "context_id w \<noteq> 0"
    and "resolve_map w tx_map = Some p" "Mapping.lookup (maps w) p = Some m"
    and "\<forall>h a. Mapping.lookup m (unique_id v) = Some (h, a) \<longrightarrow> obj_at w a \<noteq> None"
  shows "\<exists>w'. set_ranges w (Some v) rs tx_map = Inr w' \<and> get_ranges w' (Some v) tx_map = Inr rs"
proof -
  have tl: "text_like v" using assms(1) by (simp add: is_text_def)
  show ?thesis
  proof (cases "Mapping.lookup m (unique_id v)")
    case None
    let ?w' = "w\<lparr>objects := objects w @ [Some \<lparr>ranges = rs, rc = 1\<rparr>],
           maps := Mapping.update p
                     (Mapping.update (unique_id v) (hash v, length (objects w)) m) (maps w)\<rparr>"
    have s: "set_ranges w (Some v) rs tx_map = Inr ?w'"
      using tl assms(2-5) None by (rule set_ranges_insert)
    have "get_ranges ?w' (Some v) tx_map = Inr (ranges \<lparr>ranges = rs, rc = 1\<rparr>)"
      by (rule get_ranges_hit[where p = p and a = "length (objects w)"
            and m = "Mapping.update (unique_id v) (hash v, length (objects w)) m"])
        (simp_all add: tl assms(4) obj_at_def)
    with s show ?thesis by simp
  next
    case (Some e)
    obtain h0 a0 where e: "e = (h0, a0)" by (cases e)
    with Some assms(6) obtain t0 where live: "obj_at w a0 = Some t0" by auto
    let ?w' = "w\<lparr>objects := (objects w @ [Some \<lparr>ranges = rs, rc = 1\<rparr>])[a0 := released t0],
           maps := Mapping.update p
                     (Mapping.update (unique_id v) (hash v, length (objects w)) m) (maps w)\<rparr>"
    have s: "set_ranges w (Some v) rs tx_map = Inr ?w'"
      using tl assms(2-5) Some[unfolded e] live by (rule set_ranges_replace)
    have ne: "a0 \<noteq> length (objects w)" using obj_at_live_less[OF live] by simp
    have "get_ranges ?w' (Some v) tx_map = Inr (ranges \<lparr>ranges = rs, rc = 1\<rparr>)"
      by (rule get_ranges_hit[where p = p and a = "length (objects w)"
            and m = "Mapping.update (unique_id v) (hash v, length (objects w)) m"])
        (simp_all add: tl assms(4) obj_at_def ne)
    with s show ?thesis by simp
  qed
qed

theorem set_ranges_get_ranges_roundtrip_witness:
  "\<exists>w'. set_ranges ex_world_tainted (Some ex_value) [ex_range, ex_range2] None = Inr w'
        \<and> get_ranges w' (Some ex_value) None = Inr [ex_range, ex_range2]"
  by (rule set_ranges_get_ranges_roundtrip[where p = 0
        and m = "Mapping.update 1 (7, 0) Mapping.empty"])
    (simp_all add: ex_world_tainted_def ex_value_def is_text_def resolve_map_def obj_at_def)

lemma set_ranges_ok:
  assumes "is_text (Some v)" "rs \<noteq> []" "context_id w \<noteq> 0"
    and "resolve_map w tx_map = Some p" "Mapping.lookup (maps w) p = Some m"
    and "\<forall>h a. Mapping.lookup m (unique_id v) = Some (h, a) \<longrightarrow> obj_at w a \<noteq> None"
  obtains os where
    "set_ranges w (Some v) rs tx_map =
       Inr (w\<lparr>objects := os,
              maps := Mapping.update p
                        (Mapping.update (unique_id v) (hash v, length (objects w)) m) (maps w)\<rparr>)"
    "length os = Suc (length (objects w))"
    "os ! length (objects w) = Some \<lparr>ranges = rs, rc = 1\<rparr>"
proof -
  have tl: "text_like v" using assms(1) by (simp add: is_text_def)
  show ?thesis
  proof (cases "Mapping.lookup m (unique_id v)")
    case None
    show ?thesis
      by (rule that[OF set_ranges_insert[OF tl assms(2-5) None]]) simp_all
  next
    case (Some e)
    obtain h0 a0 where e: "e = (h0, a0)" by (cases e)
    with Some assms(6) obtain t0 where live: "obj_at w a0 = Some t0" by auto
    have ne: "a0 \<noteq> length (objects w)" using obj_at_live_less[OF live] by simp
    show ?thesis
      by (rule that[OF set_ranges_replace[OF tl assms(2-5) Some[unfolded e] live]])
        (simp_all add: ne)
  qed
qed

text \<open>
  C4. Re-tainting releases the previous container: after \<open>set_ranges v A\<close> and then
  \<open>set_ranges v B\<close> in the same active context (same identity and hash of \<open>v\<close>), the
  object allocated for \<open>A\<close>, counted once after the first call, is destroyed (its count
  went back to zero); the entry of the map for the identity of \<open>v\<close> holds the hash of
  \<open>v\<close> and the address of the object allocated for \<open>B\<close>, whose count is \<open>1\<close>;
  no other key of the map refers to that object; and \<open>get_ranges v\<close> returns \<open>B\<close>.
  The pointers the map holds before the calls are valid: the entry for the identity of
  \<open>v\<close>, if any, points to a live object, and every stored address has been allocated.
\<close>

theorem retaint_releases_previous:
  assumes "is_text (Some v)" "A \<noteq> []" "B \<noteq> []" "context_id w \<noteq> 0"
    and "resolve_map w tx_map = Some p" "Mapping.lookup (maps w) p = Some m"
    and "\<forall>h a. Mapping.lookup m (unique_id v) = Some (h, a) \<longrightarrow> obj_at w a \<noteq> None"
    and "\<forall>k h a. Mapping.lookup m k = Some (h, a) \<longrightarrow> a < length (objects w)"
  shows "\<exists>w1 w2 m2.
           set_ranges w (Some v) A tx_map = Inr w1
         \<and> obj_at w1 (length (objects w)) = Some \<lparr>ranges = A, rc = 1\<rparr>
         \<and> set_ranges w1 (Some v) B tx_map = Inr w2
         \<and> obj_at w2 (length (objects w)) = None
         \<and> Mapping.lookup (maps w2) p = Some m2
         \<and> Mapping.lookup m2 (unique_id v) = Some (hash v, Suc (length (objects w)))
         \<and> obj_at w2 (Suc (length (objects w))) = Some \<lparr>ranges = B, rc = 1\<rparr>
         \<and> (\<forall>k h. Mapping.lookup m2 k = Some (h, Suc (length (objects w))) \<longrightarrow> k = unique_id v)
         \<and> get_ranges w2 (Some v) tx_map = Inr B"
proof -
  let ?n = "length (objects w)"
  let ?m1 = "Mapping.update (unique_id v) (hash v, ?n) m"
  let ?m2 = "Mapping.update (unique_id v) (hash v, Suc ?n) ?m1"
  have tl: "text_like v" using assms(1) by (simp add: is_text_def)
  obtain os where
    s1: "set_ranges w (Some v) A tx_map = Inr (w\<lparr>objects := os, maps := Mapping.update p ?m1 (maps w)\<rparr>)"
    and len: "length os = Suc ?n" and top: "os ! ?n = Some \<lparr>ranges = A, rc = 1\<rparr>"
    using set_ranges_ok[OF assms(1,2,4-7)] by blast
  let ?w1 = "w\<lparr>objects := os, maps := Mapping.update p ?m1 (maps w)\<rparr>"
  let ?os2 = "(os @ [Some \<lparr>ranges = B, rc = 1\<rparr>])[?n := None]"
  let ?w2 = "?w1\<lparr>objects := ?os2, maps := Mapping.update p ?m2 (maps ?w1)\<rparr>"
  have a1: "obj_at ?w1 ?n = Some \<lparr>ranges = A, rc = 1\<rparr>"
    using len top by (simp add: obj_at_def)
  have rel: "released \<lparr>ranges = A, rc = 1\<rparr> = None" by (simp add: released_def)
  have s2: "set_ranges ?w1 (Some v) B tx_map = Inr ?w2"
    using set_ranges_replace[where w = ?w1 and s = v and rs = B and tx_map = tx_map and p = p
        and m = ?m1 and ?h0.0 = "hash v" and ?a0.0 = ?n and ?t0.0 = "\<lparr>ranges = A, rc = 1\<rparr>"]
      tl assms(3,4,5) a1 len rel by simp
  have a2: "obj_at ?w2 ?n = None"
    using len by (simp add: obj_at_def)
  have b2: "obj_at ?w2 (Suc ?n) = Some \<lparr>ranges = B, rc = 1\<rparr>"
    using len by (simp add: obj_at_def nth_append)
  have l2: "Mapping.lookup (maps ?w2) p = Some ?m2" by simp
  have e2: "Mapping.lookup ?m2 (unique_id v) = Some (hash v, Suc ?n)" by simp
  have uniq: "\<forall>k h. Mapping.lookup ?m2 k = Some (h, Suc ?n) \<longrightarrow> k = unique_id v"
  proof (intro allI impI)
    fix k h assume k: "Mapping.lookup ?m2 k = Some (h, Suc ?n)"
    show "k = unique_id v"
    proof (rule ccontr)
      assume "k \<noteq> unique_id v"
      with k have "Mapping.lookup m k = Some (h, Suc ?n)" by (simp add: lookup_update')
      with assms(8) show False by fastforce
    qed
  qed
  have g: "get_ranges ?w2 (Some v) tx_map = Inr (ranges \<lparr>ranges = B, rc = 1\<rparr>)"
    by (rule get_ranges_hit[where p = p and a = "Suc ?n" and m = ?m2])
      (use tl assms(5) b2 in simp_all)
  show ?thesis
    using s1 a1 s2 a2 l2 e2 b2 uniq g by (intro exI[of _ ?w1] exI[of _ ?w2] exI[of _ ?m2]) simp
qed

theorem retaint_releases_previous_witness:
  "\<exists>w1 w2 m2.
           set_ranges ex_world (Some ex_value) [ex_range] None = Inr w1
         \<and> obj_at w1 0 = Some \<lparr>ranges = [ex_range], rc = 1\<rparr>
         \<and> set_ranges w1 (Some ex_value) [ex_range2] None = Inr w2
         \<and> obj_at w2 0 = None
         \<and> Mapping.lookup (maps w2) 0 = Some m2
         \<and> Mapping.lookup m2 1 = Some (7, 1)
         \<and> obj_at w2 1 = Some \<lparr>ranges = [ex_range2], rc = 1\<rparr>
         \<and> get_ranges w2 (Some ex_value) None = Inr [ex_range2]"
proof -
  have "\<exists>w1 w2 m2.
           set_ranges ex_world (Some ex_value) [ex_range] None = Inr w1
         \<and> obj_at w1 (length (objects ex_world)) = Some \<lparr>ranges = [ex_range], rc = 1\<rparr>
         \<and> set_ranges w1 (Some ex_value) [ex_range2] None = Inr w2
         \<and> obj_at w2 (length (objects ex_world)) = None
         \<and> Mapping.lookup (maps w2) 0 = Some m2
         \<and> Mapping.lookup m2 (unique_id ex_value) = Some (hash ex_value, Suc (length (objects ex_world)))
         \<and> obj_at w2 (Suc (length (objects ex_world))) = Some \<lparr>ranges = [ex_range2], rc = 1\<rparr>
         \<and> (\<forall>k h. Mapping.lookup m2 k = Some (h, Suc (length (objects ex_world))) \<longrightarrow> k = unique_id ex_value)
         \<and> get_ranges w2 (Some ex_value) None = Inr [ex_range2]"
    by (rule retaint_releases_previous[where p = 0 and m = Mapping.empty])
      (simp_all add: ex_world_def ex_value_def is_text_def resolve_map_def)
  then show ?thesis by (simp add: ex_world_def ex_value_def) blast
qed

subsection \<open>Stale entries\<close>

text \<open>
  What the two lookups do with a stale entry whose object is live: \<open>get_ranges\<close>
  returns the empty sequence; \<open>get_tainted_object\<close> returns "not found", the maps are as
  before, and the object the entry points to has been through \<open>decref\<close>.
\<close>

lemma stale_lookup_effect:
  assumes "resolve_map w tx_map = Some p" "Mapping.lookup (maps w) p = Some m"
    and "Mapping.lookup m (unique_id v) = Some (cached, a)" "hash v \<noteq> cached"
    and "obj_at w a = Some t"
  shows "get_ranges w (Some v) tx_map = Inr []
       \<and> get_tainted_object w (Some v) tx_map
           = Inr (None, w\<lparr>objects := (objects w)[a := released t]\<rparr>)
       \<and> obj_at (w\<lparr>objects := (objects w)[a := released t]\<rparr>) a = released t
       \<and> maps (w\<lparr>objects := (objects w)[a := released t]\<rparr>) = maps w"
  using assms lookup_Some_not_empty[OF assms(3)] decref_live[OF assms(5)]
    obj_at_live_less[OF assms(5)]
  by (simp add: get_ranges_def get_tainted_object_def obj_at_def)

text \<open>
  C3, at a failing input. The map holds \<open>1 \<mapsto> (7, object 0)\<close> and the object has
  count \<open>1\<close>; the value with identity \<open>1\<close> now hashes to \<open>8\<close>. \<open>get_ranges\<close> returns
  the empty sequence. \<open>get_tainted_object\<close> returns "not found", but line 192 has called
  \<open>decref\<close> through the stale entry: the state is not as it was, the object is destroyed,
  and the entry, which lines 191-193 neither erase nor replace, still points to it. A
  second stale lookup, and \<open>get_ranges\<close> for the value that hashes to \<open>7\<close>, then follow
  a pointer to no live object.
\<close>

theorem get_tainted_object_stale_decref:
  "Mapping.lookup (Mapping.update 1 (7, 0) Mapping.empty) (unique_id (ex_value\<lparr>hash := 8\<rparr>))
     = Some (7, 0)
   \<and> hash (ex_value\<lparr>hash := 8\<rparr>) \<noteq> 7
   \<and> obj_at ex_world_tainted 0 = Some \<lparr>ranges = [ex_range], rc = 1\<rparr>
   \<and> get_ranges ex_world_tainted (Some (ex_value\<lparr>hash := 8\<rparr>)) None = Inr []
   \<and> get_tainted_object ex_world_tainted (Some (ex_value\<lparr>hash := 8\<rparr>)) None
        = Inr (None, ex_world_tainted\<lparr>objects := [None]\<rparr>)
   \<and> get_tainted_object ex_world_tainted (Some (ex_value\<lparr>hash := 8\<rparr>)) None
        \<noteq> Inr (None, ex_world_tainted)
   \<and> obj_at (ex_world_tainted\<lparr>objects := [None]\<rparr>) 0 = None
   \<and> maps (ex_world_tainted\<lparr>objects := [None]\<rparr>) = maps ex_world_tainted
   \<and> get_tainted_object (ex_world_tainted\<lparr>objects := [None]\<rparr>)
        (Some (ex_value\<lparr>hash := 8\<rparr>)) None = Inl undefined_behaviour
   \<and> get_ranges (ex_world_tainted\<lparr>objects := [None]\<rparr>) (Some ex_value) None
        = Inl undefined_behaviour"
  by (simp add: get_tainted_object_def get_ranges_def ex_world_tainted_def ex_value_def
      resolve_map_def decref_def obj_at_def)

subsection \<open>get_tainted_object on an identity the map does not hold\<close>

lemma get_tainted_object_absent:
  assumes "resolve_map w tx_map = Some p" "Mapping.lookup (maps w) p = Some m"
    and "\<not> Mapping.is_empty m" "Mapping.lookup m (unique_id v) = None"
  shows "get_tainted_object w (Some v) tx_map = Inl undefined_behaviour"
  using assms by (simp add: get_tainted_object_def)

text \<open>
  C5, at a failing input. The map holds the identity \<open>1\<close> only; the value has identity
  \<open>2\<close>. \<open>find\<close> returns the end iterator and line 191 reads \<open>it->second.first\<close>
  through it before line 195 tests \<open>it == tx_map->end()\<close>: the call has no defined
  behaviour, it does not return "not found".
\<close>

theorem get_tainted_object_absent_identity:
  "Mapping.lookup (Mapping.update 1 (7, 0) Mapping.empty)
       (unique_id (ex_value\<lparr>unique_id := 2\<rparr>)) = None
   \<and> get_tainted_object ex_world_tainted (Some (ex_value\<lparr>unique_id := 2\<rparr>)) None
       = Inl undefined_behaviour"
  by (simp add: get_tainted_object_def ex_world_tainted_def ex_value_def resolve_map_def)

subsection \<open>set_tainted_object\<close>

text \<open>
  The path of lines 235-236, for a value the map has no entry for and whose hash is
  obtained (\<open>h\<close>): the entry goes under the hash, so the map still has none for the
  identity unless the two numbers coincide.
\<close>

lemma set_tainted_object_fresh:
  assumes "text_like s"
    and "resolve_map w tx_taint_map = Some p" "Mapping.lookup (maps w) p = Some m"
    and "Mapping.lookup m (unique_id s) = None" "obj_at w a = Some t"
    and "force_hash s = Inr h" "to_uintptr h \<noteq> unique_id s"
  shows "\<exists>w' m'. set_tainted_object w (Some s) (Some a) tx_taint_map = Inr w'
           \<and> Mapping.lookup (maps w') p = Some m'
           \<and> Mapping.lookup m' (unique_id s) = None"
  using assms
  by (auto simp: set_tainted_object_def incref_def store_map_def map_insert_def Let_def
      split: option.splits)

text \<open>
  C2, at a failing input. The map is empty, the value has identity \<open>1\<close> and hash \<open>7\<close>,
  the object at address \<open>0\<close> is not yet counted. \<open>set_tainted_object\<close> counts the object
  and inserts the entry under the key \<open>7\<close>, the hash (line 236), not under the identity
  \<open>1\<close> that line 212 looked up: the map has no entry for the identity of the value, and
  \<open>get_tainted_object\<close> on the same value, its hash unchanged, does not find the object
  (it dereferences the end iterator).
\<close>

theorem set_tainted_object_stored_under_hash:
  "set_tainted_object ex_world_alloc (Some ex_value) (Some 0) None
     = Inr (ex_world_alloc\<lparr>objects := [Some \<lparr>ranges = [ex_range], rc = 1\<rparr>],
              maps := Mapping.update 0 (Mapping.update 7 (7, 0) Mapping.empty)
                        (maps ex_world_alloc)\<rparr>)
   \<and> Mapping.lookup (Mapping.update 7 (7, 0) Mapping.empty) (unique_id ex_value) = None
   \<and> get_tainted_object
        (ex_world_alloc\<lparr>objects := [Some \<lparr>ranges = [ex_range], rc = 1\<rparr>],
              maps := Mapping.update 0 (Mapping.update 7 (7, 0) Mapping.empty)
                        (maps ex_world_alloc)\<rparr>)
        (Some ex_value) None = Inl undefined_behaviour"
  by (simp add: set_tainted_object_def get_tainted_object_def ex_world_alloc_def ex_world_def
      ex_value_def resolve_map_def incref_def obj_at_def store_map_def
      map_insert_def
      force_hash_def to_uintptr_def)

text \<open>
  Setting the object a value already has, lines 222-233: for a text-like value whose hash
  is obtained and whose entry already points to the given object, the state is returned
  as it was.
\<close>

lemma set_tainted_object_same_object_hashed:
  assumes "is_text (Some v)"
    and "resolve_map w tx_taint_map = Some p" "Mapping.lookup (maps w) p = Some m"
    and "Mapping.lookup m (unique_id v) = Some (cached, a)"
    and "force_hash v = Inr h"
  shows "set_tainted_object w (Some v) (Some a) tx_taint_map = Inr w"
  using assms by (simp add: set_tainted_object_def is_text_def)

text \<open>
  Lines 214-221 run before that test: for a value whose hash is not cached yet and is
  computed to a number other than \<open>0\<close>, line 218 is reached whatever the map holds.
\<close>

lemma set_tainted_object_unhashed:
  assumes "is_text (Some v)" "hash v = - 1" "py_hash v \<noteq> 0"
    and "resolve_map w tx_taint_map = Some p" "Mapping.lookup (maps w) p = Some m"
  shows "set_tainted_object w (Some v) tainted_object tx_taint_map = Inl undefined_behaviour"
  using assms by (simp add: set_tainted_object_def is_text_def force_hash_def)

text \<open>
  The state of the failing input below is the one \<open>set_ranges\<close> leaves when it taints
  the un-hashed value in the empty context.
\<close>

lemma ex_world_unhashed_reached:
  "set_ranges ex_world (Some ex_value_unhashed) [ex_range] None = Inr ex_world_unhashed"
  by (simp add: set_ranges_def ex_world_def ex_world_unhashed_def ex_value_unhashed_def
      resolve_map_def allocate_ranges_into_taint_object_def incref_def obj_at_def store_map_def
      update_update(1))

text \<open>
  C10, at a failing input. The value with identity \<open>1\<close> is text-like and its hash is not
  computed yet (the cached hash is \<open>-1\<close>, the host would compute \<open>7\<close>); the map holds
  \<open>1 \<mapsto> (-1, object 0)\<close>, and \<open>get_tainted_object\<close> finds object \<open>0\<close> for the
  value. \<open>set_tainted_object\<close> with that same object does not return the state unchanged:
  before the test of line 225, line 218 applies \<open>Py_DECREF\<close> to the number \<open>7\<close>.
\<close>

theorem set_tainted_object_same_object_unhashed:
  "is_text (Some ex_value_unhashed)
   \<and> hash ex_value_unhashed = - 1
   \<and> get_tainted_object ex_world_unhashed (Some ex_value_unhashed) None
       = Inr (Some 0, ex_world_unhashed)
   \<and> set_tainted_object ex_world_unhashed (Some ex_value_unhashed) (Some 0) None
       = Inl undefined_behaviour"
  by (simp add: set_tainted_object_def get_tainted_object_def force_hash_def is_text_def
      ex_world_unhashed_def ex_value_unhashed_def resolve_map_def)

subsection \<open>are_all_text_all_ranges\<close>

lemma get_ranges_default: "get_ranges w x (tainting_map w) = get_ranges w x None"
  by (simp add: get_ranges_def resolve_map_def split: option.splits)

lemma all_ranges_loop_concat:
  assumes "\<forall>p\<in>set ps. \<not> isl (get_ranges w (Some p) None)"
  shows "all_ranges_loop w (tainting_map w) ps acc =
           Inr (acc @ concat (map (\<lambda>p. ranges_of w (Some p)) (filter text_like ps)))"
  using assms
proof (induction ps arbitrary: acc)
  case Nil
  then show ?case by simp
next
  case (Cons p ps)
  from Cons.prems obtain rs where rs: "get_ranges w (Some p) None = Inr rs"
    by (cases "get_ranges w (Some p) None") auto
  from Cons.prems have rest: "\<forall>p\<in>set ps. \<not> isl (get_ranges w (Some p) None)" by simp
  show ?case
    using Cons.IH[OF rest] rs by (simp add: is_text_def get_ranges_default ranges_of_def)
qed

lemma ex_three_ranges:
  "get_ranges ex_world_three (Some ex_value) None = Inr [ex_range]"
  "get_ranges ex_world_three
     (Some \<lparr>unique_id = 2, hash = 8, text_like = True, py_hash = 8\<rparr>) None = Inr [ex_range2]"
  "get_ranges ex_world_three
     (Some \<lparr>unique_id = 4, hash = 5, text_like = False, py_hash = 5\<rparr>) None = Inr []"
  "get_ranges ex_world_three
     (Some \<lparr>unique_id = 3, hash = 9, text_like = True, py_hash = 9\<rparr>) None
     = Inr [ex_range, ex_range2]"
  by (simp_all add: get_ranges_def ex_world_three_def ex_value_def resolve_map_def obj_at_def)

text \<open>
  C8. The shape of the result of \<open>are_all_text_all_ranges\<close>: when the candidate is
  text-like, the pair of, first, the ranges of the text-like operands, concatenated in the
  order of the operands (the other operands give nothing), followed by the ranges of the
  candidate, and, second, the ranges of the candidate; when it is not, two empty
  sequences. The lookups of \<open>get_ranges\<close> are defined (the pointers they follow are
  valid).
\<close>

theorem are_all_text_all_ranges_shape:
  assumes "\<not> isl (get_ranges w candidate None)"
    and "\<forall>p\<in>set operands. \<not> isl (get_ranges w (Some p) None)"
  shows "are_all_text_all_ranges w candidate operands =
           (if is_text candidate then
              Inr (concat (map (\<lambda>p. ranges_of w (Some p)) (filter text_like operands))
                     @ ranges_of w candidate,
                   ranges_of w candidate)
            else Inr ([], []))"
proof -
  from assms(1) obtain rs where rs: "get_ranges w candidate None = Inr rs"
    by (cases "get_ranges w candidate None") auto
  show ?thesis
    using rs all_ranges_loop_concat[OF assms(2), of "[]"]
    by (simp add: are_all_text_all_ranges_def get_ranges_default ranges_of_def)
qed

theorem are_all_text_all_ranges_shape_witness:
  "are_all_text_all_ranges ex_world_three (Some ex_value) ex_operands
     = Inr ([ex_range2, ex_range, ex_range2, ex_range], [ex_range])
   \<and> are_all_text_all_ranges ex_world_three (Some (ex_value\<lparr>text_like := False\<rparr>)) ex_operands
     = Inr ([], [])"
proof -
  have ops: "\<forall>p\<in>set ex_operands. \<not> isl (get_ranges ex_world_three (Some p) None)"
    by (simp add: ex_operands_def ex_three_ranges)
  have c: "\<not> isl (get_ranges ex_world_three (Some ex_value) None)"
    by (simp add: ex_three_ranges)
  have t: "is_text (Some ex_value)"
    by (simp add: is_text_def ex_value_def)
  have c': "\<not> isl (get_ranges ex_world_three (Some (ex_value\<lparr>text_like := False\<rparr>)) None)"
    by (simp add: get_ranges_def)
  have t': "\<not> is_text (Some (ex_value\<lparr>text_like := False\<rparr>))"
    by (simp add: is_text_def)
  have "are_all_text_all_ranges ex_world_three (Some ex_value) ex_operands
     = Inr ([ex_range2, ex_range, ex_range2, ex_range], [ex_range])"
    using are_all_text_all_ranges_shape[OF c ops] t
    by (simp add: ranges_of_def ex_three_ranges ex_operands_def)
  moreover
  have "are_all_text_all_ranges ex_world_three (Some (ex_value\<lparr>text_like := False\<rparr>)) ex_operands
     = Inr ([], [])"
    using are_all_text_all_ranges_shape[OF c' ops] t' by simp
  ultimately show ?thesis by simp
qed

end
